theory Spec2Isabelle
  imports Main
begin

section \<open>Python values, exceptions and the atomic constraints\<close>

text \<open>
  The exceptions raised by \<^verbatim>\<open>annotated_types/__init__.py\<close>. A function that may
  raise returns \<open>pyerr + 'a\<close>, with \<open>Inl\<close> for the exception.
\<close>

datatype pyerr = TypeError | ValueError | NotImplementedError

text \<open>
  \<^verbatim>\<open>Len\<close> is a frozen dataclass with the fields
  \<^verbatim>\<open>min_length: Annotated[int, Ge(0)] = 0\<close> and
  \<^verbatim>\<open>max_length: Optional[Annotated[int, Ge(0)]] = None\<close>. The fields carry the
  declared types: an unbounded Python integer, and an integer or \<^verbatim>\<open>None\<close>.
  The dataclass checks neither the type nor the sign of what it stores.
\<close>

record Len =
  min_length :: int
  max_length :: "int option"

text \<open>
  The values an operator argument (\<^verbatim>\<open>other: Any\<close>) ranges over: \<^verbatim>\<open>None\<close>,
  booleans, integers, strings and \<^verbatim>\<open>Len\<close> objects. \<^verbatim>\<open>Len.__eq__\<close> returns
  either a boolean or a \<^verbatim>\<open>Len\<close>, so both are values.
\<close>

datatype pyval = PyNone | PyBool bool | PyInt int | PyStr string | PyLen Len

text \<open>
  \<^verbatim>\<open>isinstance(other, int)\<close>: \<^verbatim>\<open>bool\<close> is a subclass of \<^verbatim>\<open>int\<close>, so
  \<^verbatim>\<open>True\<close> and \<^verbatim>\<open>False\<close> pass. \<open>int_of\<close> is the number such a value
  stands for in arithmetic and comparisons (\<^verbatim>\<open>True == 1\<close>); it is only applied
  after the \<^verbatim>\<open>isinstance\<close> test has passed.
\<close>

fun isinstance_int :: "pyval \<Rightarrow> bool" where
  "isinstance_int (PyInt n) = True"
| "isinstance_int (PyBool b) = True"
| "isinstance_int v = False"

fun int_of :: "pyval \<Rightarrow> int" where
  "int_of (PyInt n) = n"
| "int_of (PyBool b) = (if b then 1 else 0)"
| "int_of v = 0"

text \<open>
  The single-bound constraints that the grouped constraints unpack to:
  \<^verbatim>\<open>Gt\<close>, \<^verbatim>\<open>Ge\<close>, \<^verbatim>\<open>Lt\<close>, \<^verbatim>\<open>Le\<close>, \<^verbatim>\<open>MinLen\<close> and \<^verbatim>\<open>MaxLen\<close>,
  each a frozen dataclass of one field with structural equality.
\<close>

datatype BaseMetadata =
    Gt pyval
  | Ge pyval
  | Lt pyval
  | Le pyval
  | MinLen int
  | MaxLen int

section \<open>Interval\<close>

text \<open>
  \<^verbatim>\<open>Interval\<close> has four keyword-only fields, each defaulting to \<^verbatim>\<open>None\<close>;
  a bound is set when its field is not \<^verbatim>\<open>None\<close>.
\<close>

record Interval =
  gt :: pyval
  ge :: pyval
  lt :: pyval
  le :: pyval

definition Interval_init :: Interval where
  "Interval_init = \<lparr>gt = PyNone, ge = PyNone, lt = PyNone, le = PyNone\<rparr>"

text \<open>
  \<^verbatim>\<open>Interval.__iter__\<close> is a generator: four tests in sequence, each yielding one
  constraint. The list \<open>out\<close> collects what has been yielded so far.
\<close>

definition Interval_iter :: "Interval \<Rightarrow> BaseMetadata list" where
  "Interval_iter self =
     (let out0 = [];
          out1 = (if gt self \<noteq> PyNone then out0 @ [Gt (gt self)] else out0);
          out2 = (if ge self \<noteq> PyNone then out1 @ [Ge (ge self)] else out1);
          out3 = (if lt self \<noteq> PyNone then out2 @ [Lt (lt self)] else out2);
          out4 = (if le self \<noteq> PyNone then out3 @ [Le (le self)] else out3)
      in out4)"

text \<open>
  \<^verbatim>\<open>Interval.__check(other, which)\<close> raises \<^verbatim>\<open>ValueError\<close> when
  \<^verbatim>\<open>which == "lo"\<close> and \<^verbatim>\<open>lt\<close> or \<^verbatim>\<open>le\<close> is set, or \<^verbatim>\<open>which == "hi"\<close>
  and \<^verbatim>\<open>gt\<close> or \<^verbatim>\<open>ge\<close> is set. \<^verbatim>\<open>other\<close> only appears in the message.
\<close>

datatype which_bound = Lo | Hi

definition Interval_check :: "Interval \<Rightarrow> pyval \<Rightarrow> which_bound \<Rightarrow> pyerr + unit" where
  "Interval_check self other which =
     (if (which = Lo \<and> (lt self \<noteq> PyNone \<or> le self \<noteq> PyNone))
         \<or> (which = Hi \<and> (gt self \<noteq> PyNone \<or> ge self \<noteq> PyNone))
      then Inl ValueError
      else Inr ())"

text \<open>
  The four comparison methods call the check and then return
  \<^verbatim>\<open>dataclasses.replace(self, field=other)\<close>: a new object, \<^verbatim>\<open>self\<close> unchanged.
\<close>

definition Interval_lt :: "Interval \<Rightarrow> pyval \<Rightarrow> pyerr + Interval" where
  "Interval_lt self other =
     (case Interval_check self other Lo of
        Inl e \<Rightarrow> Inl e
      | Inr _ \<Rightarrow> Inr (self\<lparr>lt := other\<rparr>))"

definition Interval_le :: "Interval \<Rightarrow> pyval \<Rightarrow> pyerr + Interval" where
  "Interval_le self other =
     (case Interval_check self other Lo of
        Inl e \<Rightarrow> Inl e
      | Inr _ \<Rightarrow> Inr (self\<lparr>le := other\<rparr>))"

definition Interval_ge :: "Interval \<Rightarrow> pyval \<Rightarrow> pyerr + Interval" where
  "Interval_ge self other =
     (case Interval_check self other Hi of
        Inl e \<Rightarrow> Inl e
      | Inr _ \<Rightarrow> Inr (self\<lparr>ge := other\<rparr>))"

definition Interval_gt :: "Interval \<Rightarrow> pyval \<Rightarrow> pyerr + Interval" where
  "Interval_gt self other =
     (case Interval_check self other Hi of
        Inl e \<Rightarrow> Inl e
      | Inr _ \<Rightarrow> Inr (self\<lparr>gt := other\<rparr>))"

section \<open>Len\<close>

definition Len_init :: Len where
  "Len_init = \<lparr>min_length = 0, max_length = None\<rparr>"

text \<open>
  \<^verbatim>\<open>Len.__iter__\<close>: \<^verbatim>\<open>MinLen\<close> is yielded when \<^verbatim>\<open>self.min_length > 0\<close>,
  then \<^verbatim>\<open>MaxLen\<close> when \<^verbatim>\<open>self.max_length is not None\<close>.
\<close>

definition Len_iter :: "Len \<Rightarrow> BaseMetadata list" where
  "Len_iter self =
     (let out0 = [];
          out1 = (if min_length self > 0 then out0 @ [MinLen (min_length self)] else out0);
          out2 = (case max_length self of
                    Some m \<Rightarrow> out1 @ [MaxLen m]
                  | None \<Rightarrow> out1)
      in out2)"

text \<open>
  \<^verbatim>\<open>Len.__check(other, which=None)\<close>, with \<^verbatim>\<open>which\<close> one of \<^verbatim>\<open>"min"\<close>,
  \<^verbatim>\<open>"max"\<close> and \<^verbatim>\<open>None\<close>: first the \<^verbatim>\<open>isinstance\<close> test (\<^verbatim>\<open>TypeError\<close>),
  then the test of the bounds already set (\<^verbatim>\<open>ValueError\<close>).
\<close>

datatype which_length = Which_min | Which_max

definition Len_check :: "Len \<Rightarrow> pyval \<Rightarrow> which_length option \<Rightarrow> pyerr + unit" where
  "Len_check self other which =
     (if \<not> isinstance_int other then Inl TypeError
      else if (which \<noteq> Some Which_max \<and> min_length self \<noteq> 0)
              \<or> (which \<noteq> Some Which_min \<and> max_length self \<noteq> None)
      then Inl ValueError
      else Inr ())"

text \<open>
  The arithmetic of the comparison methods on an \<^verbatim>\<open>Optional[int]\<close>:
  \<^verbatim>\<open>None - 1\<close> and \<^verbatim>\<open>min(None, n)\<close> raise \<^verbatim>\<open>TypeError\<close> in Python 3
  (\<^verbatim>\<open>min\<close> evaluates \<^verbatim>\<open>n < None\<close>).
\<close>

definition py_sub :: "int option \<Rightarrow> int \<Rightarrow> pyerr + int" where
  "py_sub a k = (case a of None \<Rightarrow> Inl TypeError | Some x \<Rightarrow> Inr (x - k))"

definition py_min :: "int option \<Rightarrow> int \<Rightarrow> pyerr + int" where
  "py_min a b = (case a of None \<Rightarrow> Inl TypeError | Some x \<Rightarrow> Inr (if b < x then b else x))"

definition py_max :: "int \<Rightarrow> int \<Rightarrow> int" where
  "py_max a b = (if b > a then b else a)"

text \<open>\<^verbatim>\<open>type(self) == type(other)\<close> for \<^verbatim>\<open>self\<close> a \<^verbatim>\<open>Len\<close>.\<close>

fun type_is_Len :: "pyval \<Rightarrow> bool" where
  "type_is_Len (PyLen l) = True"
| "type_is_Len v = False"

text \<open>
  \<^verbatim>\<open>Len.__eq__\<close>: against another \<^verbatim>\<open>Len\<close> (\<^verbatim>\<open>type(self) == type(other)\<close>) it
  compares both fields and returns a boolean; against anything else it runs the check
  and returns \<^verbatim>\<open>Len(min_length=other, max_length=other)\<close>.
\<close>

definition Len_eq :: "Len \<Rightarrow> pyval \<Rightarrow> pyerr + pyval" where
  "Len_eq self other =
     (case other of
        PyLen other_len \<Rightarrow>
          Inr (PyBool (min_length self = min_length other_len
                       \<and> max_length self = max_length other_len))
      | _ \<Rightarrow>
          (case Len_check self other None of
             Inl e \<Rightarrow> Inl e
           | Inr _ \<Rightarrow> Inr (PyLen \<lparr>min_length = int_of other,
                                 max_length = Some (int_of other)\<rparr>)))"

text \<open>
  \<^verbatim>\<open>__lt__\<close>: \<^verbatim>\<open>replace(self, max_length=min(self.max_length - 1, other))\<close>;
  \<^verbatim>\<open>__le__\<close>: \<^verbatim>\<open>replace(self, max_length=min(self.max_length, other))\<close>;
  \<^verbatim>\<open>__ge__\<close>: \<^verbatim>\<open>replace(self, min_length=max(self.min_length, other))\<close>;
  \<^verbatim>\<open>__gt__\<close>: \<^verbatim>\<open>replace(self, min_length=max(self.min_length + 1, other))\<close>;
  each after the check.
\<close>

definition Len_lt :: "Len \<Rightarrow> pyval \<Rightarrow> pyerr + Len" where
  "Len_lt self other =
     (case Len_check self other (Some Which_max) of
        Inl e \<Rightarrow> Inl e
      | Inr _ \<Rightarrow>
          (case py_sub (max_length self) 1 of
             Inl e \<Rightarrow> Inl e
           | Inr m \<Rightarrow>
               (case py_min (Some m) (int_of other) of
                  Inl e \<Rightarrow> Inl e
                | Inr r \<Rightarrow> Inr (self\<lparr>max_length := Some r\<rparr>))))"

definition Len_le :: "Len \<Rightarrow> pyval \<Rightarrow> pyerr + Len" where
  "Len_le self other =
     (case Len_check self other (Some Which_max) of
        Inl e \<Rightarrow> Inl e
      | Inr _ \<Rightarrow>
          (case py_min (max_length self) (int_of other) of
             Inl e \<Rightarrow> Inl e
           | Inr r \<Rightarrow> Inr (self\<lparr>max_length := Some r\<rparr>)))"

definition Len_ge :: "Len \<Rightarrow> pyval \<Rightarrow> pyerr + Len" where
  "Len_ge self other =
     (case Len_check self other (Some Which_min) of
        Inl e \<Rightarrow> Inl e
      | Inr _ \<Rightarrow> Inr (self\<lparr>min_length := py_max (min_length self) (int_of other)\<rparr>))"

definition Len_gt :: "Len \<Rightarrow> pyval \<Rightarrow> pyerr + Len" where
  "Len_gt self other =
     (case Len_check self other (Some Which_min) of
        Inl e \<Rightarrow> Inl e
      | Inr _ \<Rightarrow> Inr (self\<lparr>min_length := py_max (min_length self + 1) (int_of other)\<rparr>))"

section \<open>The builders \<^verbatim>\<open>X\<close> and \<^verbatim>\<open>len_X\<close>\<close>

text \<open>
  \<^verbatim>\<open>X = __Magic()\<close> has no fields; each comparison constructs an \<^verbatim>\<open>Interval\<close>
  from keyword arguments, the other fields taking their default \<^verbatim>\<open>None\<close>.
\<close>

definition Magic_lt :: "pyval \<Rightarrow> Interval" where
  "Magic_lt other = Interval_init\<lparr>lt := other\<rparr>"

definition Magic_le :: "pyval \<Rightarrow> Interval" where
  "Magic_le other = Interval_init\<lparr>le := other\<rparr>"

definition Magic_eq :: "pyval \<Rightarrow> Interval" where
  "Magic_eq other = Interval_init\<lparr>le := other, ge := other\<rparr>"

definition Magic_ge :: "pyval \<Rightarrow> Interval" where
  "Magic_ge other = Interval_init\<lparr>ge := other\<rparr>"

definition Magic_gt :: "pyval \<Rightarrow> Interval" where
  "Magic_gt other = Interval_init\<lparr>gt := other\<rparr>"

text \<open>
  \<^verbatim>\<open>len_X = __LenMagic()\<close>: its check is the \<^verbatim>\<open>isinstance\<close> test alone. The
  branch \<^verbatim>\<open>type(self) == type(other)\<close> of its \<^verbatim>\<open>__eq__\<close> needs another builder
  object as argument, which \<open>pyval\<close> does not contain.
\<close>

definition LenMagic_check :: "pyval \<Rightarrow> pyerr + unit" where
  "LenMagic_check other = (if \<not> isinstance_int other then Inl TypeError else Inr ())"

definition LenMagic_lt :: "pyval \<Rightarrow> pyerr + Len" where
  "LenMagic_lt other =
     (case LenMagic_check other of
        Inl e \<Rightarrow> Inl e
      | Inr _ \<Rightarrow> Inr (Len_init\<lparr>max_length := Some (int_of other - 1)\<rparr>))"

definition LenMagic_le :: "pyval \<Rightarrow> pyerr + Len" where
  "LenMagic_le other =
     (case LenMagic_check other of
        Inl e \<Rightarrow> Inl e
      | Inr _ \<Rightarrow> Inr (Len_init\<lparr>max_length := Some (int_of other)\<rparr>))"

definition LenMagic_eq :: "pyval \<Rightarrow> pyerr + Len" where
  "LenMagic_eq other =
     (case LenMagic_check other of
        Inl e \<Rightarrow> Inl e
      | Inr _ \<Rightarrow> Inr \<lparr>min_length = int_of other, max_length = Some (int_of other)\<rparr>)"

definition LenMagic_ge :: "pyval \<Rightarrow> pyerr + Len" where
  "LenMagic_ge other =
     (case LenMagic_check other of
        Inl e \<Rightarrow> Inl e
      | Inr _ \<Rightarrow> Inr (Len_init\<lparr>min_length := int_of other\<rparr>))"

definition LenMagic_gt :: "pyval \<Rightarrow> pyerr + Len" where
  "LenMagic_gt other =
     (case LenMagic_check other of
        Inl e \<Rightarrow> Inl e
      | Inr _ \<Rightarrow> Inr (Len_init\<lparr>min_length := int_of other + 1\<rparr>))"

text \<open>
  The data-model invariant of a \<^verbatim>\<open>Len\<close>, as the annotations \<^verbatim>\<open>Ge(0)\<close> on its
  fields state it: both bounds are non-negative.
\<close>

definition Len_nonneg :: "Len \<Rightarrow> bool" where
  "Len_nonneg l = (0 \<le> min_length l \<and> (case max_length l of None \<Rightarrow> True | Some m \<Rightarrow> 0 \<le> m))"

section \<open>Defining a subclass of \<^verbatim>\<open>GroupedMetadata\<close>\<close>

text \<open>
  Function objects are compared by identity (\<^verbatim>\<open>is\<close>): the two methods that
  \<^verbatim>\<open>GroupedMetadata\<close> defines, and any function created by a \<^verbatim>\<open>def\<close> elsewhere,
  numbered. A class object has a name, at most one base besides \<^verbatim>\<open>object\<close>, and the
  namespace its body left behind.
\<close>

datatype funobj = GroupedMetadata_init_subclass_fn | GroupedMetadata_iter_fn | Fn nat

datatype pyclass =
  PyClass (cls_name: string) (cls_base: "pyclass option") (cls_dict: "string \<Rightarrow> funobj option")

text \<open>Attribute lookup on a class: its own namespace first, then up the bases.\<close>

fun class_getattr :: "pyclass \<Rightarrow> string \<Rightarrow> funobj option" where
  "class_getattr (PyClass n b d) a =
     (case d a of
        Some f \<Rightarrow> Some f
      | None \<Rightarrow> (case b of None \<Rightarrow> None | Some p \<Rightarrow> class_getattr p a))"

definition GroupedMetadata :: pyclass where
  "GroupedMetadata =
     PyClass ''GroupedMetadata'' None
       [''__init_subclass__'' \<mapsto> GroupedMetadata_init_subclass_fn,
        ''__iter__'' \<mapsto> GroupedMetadata_iter_fn]"

text \<open>
  \<^verbatim>\<open>GroupedMetadata.__init_subclass__(cls)\<close>, called without keyword arguments:
  \<^verbatim>\<open>if cls.__iter__ is GroupedMetadata.__iter__: raise TypeError(...)\<close>.
\<close>

definition GroupedMetadata_init_subclass :: "pyclass \<Rightarrow> pyerr + unit" where
  "GroupedMetadata_init_subclass cls =
     (if class_getattr cls ''__iter__'' = class_getattr GroupedMetadata ''__iter__''
      then Inl TypeError
      else Inr ())"

text \<open>
  The statement \<^verbatim>\<open>class name(base): body\<close>: the class object is built from the
  body's namespace, then the \<^verbatim>\<open>__init_subclass__\<close> that the base resolves to is
  run on it, and the name is bound only if that returns. The hook of \<^verbatim>\<open>object\<close>
  does nothing; a hook defined by user code is outside the model and treated as
  \<^verbatim>\<open>object\<close>'s.
\<close>

definition class_stmt :: "string \<Rightarrow> pyclass \<Rightarrow> (string \<Rightarrow> funobj option) \<Rightarrow> pyerr + pyclass" where
  "class_stmt name base body =
     (let cls = PyClass name (Some base) body in
      if class_getattr base ''__init_subclass__'' = Some GroupedMetadata_init_subclass_fn
      then (case GroupedMetadata_init_subclass cls of
              Inl e \<Rightarrow> Inl e
            | Inr _ \<Rightarrow> Inr cls)
      else Inr cls)"

text \<open>
  Iterating an instance of \<open>cls\<close> calls the \<^verbatim>\<open>__iter__\<close> the class resolves to;
  \<^verbatim>\<open>GroupedMetadata.__iter__\<close> raises \<^verbatim>\<open>NotImplementedError\<close>. Any other function is
  returned for the caller to run.
\<close>

definition instance_iter :: "pyclass \<Rightarrow> pyerr + funobj" where
  "instance_iter cls =
     (case class_getattr cls ''__iter__'' of
        None \<Rightarrow> Inl TypeError
      | Some f \<Rightarrow> (if f = GroupedMetadata_iter_fn then Inl NotImplementedError else Inr f))"

section \<open>Sequencing\<close>

text \<open>
  Two operations in a row, as in \<^verbatim>\<open>(X > 1) <= 5\<close>: an exception raised by the
  first ends the expression.
\<close>

definition and_then :: "pyerr + 'a \<Rightarrow> ('a \<Rightarrow> pyerr + 'b) \<Rightarrow> pyerr + 'b" where
  "and_then r f = (case r of Inl e \<Rightarrow> Inl e | Inr x \<Rightarrow> f x)"

section \<open>Properties of Interval\<close>

lemmas Interval_ops =
  Interval_lt_def Interval_le_def Interval_ge_def Interval_gt_def Interval_check_def

text \<open>
  C3. For every Interval, unpacking yields, in this order, \<open>Gt\<close> of \<^verbatim>\<open>gt\<close> if it is
  set, \<open>Ge\<close> of \<^verbatim>\<open>ge\<close> if it is set, \<open>Lt\<close> of \<^verbatim>\<open>lt\<close> if it is set and \<open>Le\<close> of
  \<^verbatim>\<open>le\<close> if it is set: the result is the table of the four fields in that order with
  the unset ones dropped. \<^verbatim>\<open>Interval()\<close> unpacks to nothing, \<^verbatim>\<open>Interval(gt=1)\<close> to
  \<^verbatim>\<open>[Gt(1)]\<close> and \<^verbatim>\<open>Interval(gt=1, le=5)\<close> to \<^verbatim>\<open>[Gt(1), Le(5)]\<close>.
\<close>

theorem Interval_iter_order:
  "Interval_iter i =
     map (\<lambda>(k, v). k v)
       (filter (\<lambda>(k, v). v \<noteq> PyNone) [(Gt, gt i), (Ge, ge i), (Lt, lt i), (Le, le i)])
   \<and> Interval_iter Interval_init = []
   \<and> Interval_iter (Interval_init\<lparr>gt := PyInt 1\<rparr>) = [Gt (PyInt 1)]
   \<and> Interval_iter (Interval_init\<lparr>gt := PyInt 1, le := PyInt 5\<rparr>) = [Gt (PyInt 1), Le (PyInt 5)]"
  by (simp add: Interval_iter_def Interval_init_def)

theorem Interval_iter_order_witness:
  "Interval_iter \<lparr>gt = PyNone, ge = PyInt 2, lt = PyInt 7, le = PyNone\<rparr>
     = [Ge (PyInt 2), Lt (PyInt 7)]"
  using Interval_iter_order [of "\<lparr>gt = PyNone, ge = PyInt 2, lt = PyInt 7, le = PyNone\<rparr>"]
  by simp

text \<open>
  C1, as the code has it. For every Interval and every value \<open>v\<close>: \<^verbatim>\<open>self < v\<close> and
  \<^verbatim>\<open>self <= v\<close> raise \<^verbatim>\<open>ValueError\<close> exactly when an upper bound (\<^verbatim>\<open>lt\<close> or
  \<^verbatim>\<open>le\<close>) is already set, and otherwise return a copy with \<^verbatim>\<open>lt\<close> (resp.
  \<^verbatim>\<open>le\<close>) replaced by \<open>v\<close>; \<^verbatim>\<open>self >= v\<close> and \<^verbatim>\<open>self > v\<close> raise exactly when
  a lower bound (\<^verbatim>\<open>gt\<close> or \<^verbatim>\<open>ge\<close>) is already set, and otherwise return a copy with
  \<^verbatim>\<open>ge\<close> (resp. \<^verbatim>\<open>gt\<close>) replaced by \<open>v\<close>. The guard is on the bound of the same
  direction, not of the opposite one.
\<close>

theorem Interval_narrowing_guard:
  "Interval_lt i v =
     (if lt i \<noteq> PyNone \<or> le i \<noteq> PyNone then Inl ValueError else Inr (i\<lparr>lt := v\<rparr>))
   \<and> Interval_le i v =
     (if lt i \<noteq> PyNone \<or> le i \<noteq> PyNone then Inl ValueError else Inr (i\<lparr>le := v\<rparr>))
   \<and> Interval_ge i v =
     (if gt i \<noteq> PyNone \<or> ge i \<noteq> PyNone then Inl ValueError else Inr (i\<lparr>ge := v\<rparr>))
   \<and> Interval_gt i v =
     (if gt i \<noteq> PyNone \<or> ge i \<noteq> PyNone then Inl ValueError else Inr (i\<lparr>gt := v\<rparr>))"
  by (simp add: Interval_ops)

theorem Interval_narrowing_guard_witness:
  "Interval_lt \<lparr>gt = PyInt 1, ge = PyNone, lt = PyNone, le = PyNone\<rparr> (PyInt 5)
     = Inr \<lparr>gt = PyInt 1, ge = PyNone, lt = PyInt 5, le = PyNone\<rparr>
   \<and> Interval_le \<lparr>gt = PyInt 1, ge = PyNone, lt = PyNone, le = PyNone\<rparr> (PyInt 5)
     = Inr \<lparr>gt = PyInt 1, ge = PyNone, lt = PyNone, le = PyInt 5\<rparr>
   \<and> Interval_ge \<lparr>gt = PyInt 1, ge = PyNone, lt = PyNone, le = PyNone\<rparr> (PyInt 5)
     = Inl ValueError
   \<and> Interval_gt \<lparr>gt = PyInt 1, ge = PyNone, lt = PyNone, le = PyNone\<rparr> (PyInt 5)
     = Inl ValueError"
  using Interval_narrowing_guard
    [of "\<lparr>gt = PyInt 1, ge = PyNone, lt = PyNone, le = PyNone\<rparr>" "PyInt 5"]
  by simp

text \<open>
  C1 as stated fails in both directions. \<^verbatim>\<open>Interval(gt=1) < 5\<close> has a lower bound set
  and returns \<^verbatim>\<open>Interval(gt=1, lt=5)\<close>; \<^verbatim>\<open>Interval(lt=5) < 3\<close> has no lower bound
  set and raises \<^verbatim>\<open>ValueError\<close>.
\<close>

theorem Interval_lt_lower_bound_counterexample:
  "gt \<lparr>gt = PyInt 1, ge = PyNone, lt = PyNone, le = PyNone\<rparr> \<noteq> PyNone
   \<and> Interval_lt \<lparr>gt = PyInt 1, ge = PyNone, lt = PyNone, le = PyNone\<rparr> (PyInt 5)
       = Inr \<lparr>gt = PyInt 1, ge = PyNone, lt = PyInt 5, le = PyNone\<rparr>
   \<and> gt \<lparr>gt = PyNone, ge = PyNone, lt = PyInt 5, le = PyNone\<rparr> = PyNone
   \<and> ge \<lparr>gt = PyNone, ge = PyNone, lt = PyInt 5, le = PyNone\<rparr> = PyNone
   \<and> Interval_lt \<lparr>gt = PyNone, ge = PyNone, lt = PyInt 5, le = PyNone\<rparr> (PyInt 3)
       = Inl ValueError"
  by (simp add: Interval_ops)

text \<open>
  C4. Chained narrowing from \<^verbatim>\<open>X\<close>: \<^verbatim>\<open>(X > 1) <= 5\<close> is
  \<^verbatim>\<open>Interval(gt=1, le=5)\<close>; a further \<^verbatim>\<open>>\<close> or \<^verbatim>\<open>>=\<close> on that result, with any
  operand, raises \<^verbatim>\<open>ValueError\<close>; and \<^verbatim>\<open>(X > 0) <= 100\<close> unpacks to exactly
  \<^verbatim>\<open>[Gt(0), Le(100)]\<close>.
\<close>

theorem chained_narrowing:
  "and_then (Inr (Magic_gt (PyInt 1))) (\<lambda>i. Interval_le i (PyInt 5))
     = Inr \<lparr>gt = PyInt 1, ge = PyNone, lt = PyNone, le = PyInt 5\<rparr>
   \<and> Interval_gt \<lparr>gt = PyInt 1, ge = PyNone, lt = PyNone, le = PyInt 5\<rparr> v = Inl ValueError
   \<and> Interval_ge \<lparr>gt = PyInt 1, ge = PyNone, lt = PyNone, le = PyInt 5\<rparr> v = Inl ValueError
   \<and> and_then (Interval_le (Magic_gt (PyInt 0)) (PyInt 100)) (\<lambda>i. Inr (Interval_iter i))
     = Inr [Gt (PyInt 0), Le (PyInt 100)]"
  by (simp add: and_then_def Magic_gt_def Interval_init_def Interval_ops Interval_iter_def)

theorem chained_narrowing_witness:
  "Interval_gt \<lparr>gt = PyInt 1, ge = PyNone, lt = PyNone, le = PyInt 5\<rparr> (PyInt 0)
     = Inl ValueError
   \<and> Interval_ge \<lparr>gt = PyInt 1, ge = PyNone, lt = PyNone, le = PyInt 5\<rparr> (PyInt 0)
     = Inl ValueError"
  using chained_narrowing [of "PyInt 0"] by simp

section \<open>Properties of the builders\<close>

lemmas LenMagic_ops =
  LenMagic_lt_def LenMagic_le_def LenMagic_eq_def LenMagic_ge_def LenMagic_gt_def
  LenMagic_check_def Len_init_def

text \<open>
  C5. Each comparison on \<^verbatim>\<open>X\<close> returns an Interval in which the one corresponding
  field holds the operand and every other field is \<^verbatim>\<open>None\<close>; \<^verbatim>\<open>==\<close> stores the
  operand in both \<^verbatim>\<open>ge\<close> and \<^verbatim>\<open>le\<close>. Each comparison of \<^verbatim>\<open>len_X\<close> with an
  integer \<open>n\<close> returns a Len: \<^verbatim>\<open><\<close> gives \<^verbatim>\<open>max_length = n - 1\<close>, \<^verbatim>\<open><=\<close> gives
  \<^verbatim>\<open>max_length = n\<close>, \<^verbatim>\<open>>=\<close> gives \<^verbatim>\<open>min_length = n\<close>, \<^verbatim>\<open>>\<close> gives
  \<^verbatim>\<open>min_length = n + 1\<close>, the other field keeping its default, and \<^verbatim>\<open>==\<close> gives
  \<^verbatim>\<open>min_length = max_length = n\<close>.
\<close>

theorem builder_comparisons:
  "Magic_lt v = \<lparr>gt = PyNone, ge = PyNone, lt = v, le = PyNone\<rparr>
   \<and> Magic_le v = \<lparr>gt = PyNone, ge = PyNone, lt = PyNone, le = v\<rparr>
   \<and> Magic_eq v = \<lparr>gt = PyNone, ge = v, lt = PyNone, le = v\<rparr>
   \<and> Magic_ge v = \<lparr>gt = PyNone, ge = v, lt = PyNone, le = PyNone\<rparr>
   \<and> Magic_gt v = \<lparr>gt = v, ge = PyNone, lt = PyNone, le = PyNone\<rparr>
   \<and> LenMagic_lt (PyInt n) = Inr \<lparr>min_length = 0, max_length = Some (n - 1)\<rparr>
   \<and> LenMagic_le (PyInt n) = Inr \<lparr>min_length = 0, max_length = Some n\<rparr>
   \<and> LenMagic_eq (PyInt n) = Inr \<lparr>min_length = n, max_length = Some n\<rparr>
   \<and> LenMagic_ge (PyInt n) = Inr \<lparr>min_length = n, max_length = None\<rparr>
   \<and> LenMagic_gt (PyInt n) = Inr \<lparr>min_length = n + 1, max_length = None\<rparr>"
  by (simp add: Magic_lt_def Magic_le_def Magic_eq_def Magic_ge_def Magic_gt_def
      Interval_init_def LenMagic_ops)

theorem builder_comparisons_witness:
  "Magic_eq (PyInt 3) = \<lparr>gt = PyNone, ge = PyInt 3, lt = PyNone, le = PyInt 3\<rparr>
   \<and> LenMagic_lt (PyInt 3) = Inr \<lparr>min_length = 0, max_length = Some 2\<rparr>
   \<and> LenMagic_gt (PyInt 3) = Inr \<lparr>min_length = 4, max_length = None\<rparr>"
  using builder_comparisons [of "PyInt 3" 3] by simp

text \<open>
  C8, as the code has it. A comparison of \<^verbatim>\<open>len_X\<close> with an integer \<open>n\<close> always
  returns a Len, and that Len has non-negative bounds exactly when the bound stored is
  non-negative: \<open>n \<ge> 1\<close> for \<^verbatim>\<open><\<close>, \<open>n \<ge> 0\<close> for \<^verbatim>\<open><=\<close>, \<^verbatim>\<open>==\<close> and \<^verbatim>\<open>>=\<close>,
  \<open>n \<ge> -1\<close> for \<^verbatim>\<open>>\<close>. In particular all five results have non-negative bounds for
  every \<open>n \<ge> 1\<close>. The builder stores what it computes without testing its sign.
\<close>

theorem LenMagic_nonneg_iff:
  "and_then (LenMagic_lt (PyInt n)) (\<lambda>l. Inr (Len_nonneg l)) = Inr (1 \<le> n)
   \<and> and_then (LenMagic_le (PyInt n)) (\<lambda>l. Inr (Len_nonneg l)) = Inr (0 \<le> n)
   \<and> and_then (LenMagic_eq (PyInt n)) (\<lambda>l. Inr (Len_nonneg l)) = Inr (0 \<le> n)
   \<and> and_then (LenMagic_ge (PyInt n)) (\<lambda>l. Inr (Len_nonneg l)) = Inr (0 \<le> n)
   \<and> and_then (LenMagic_gt (PyInt n)) (\<lambda>l. Inr (Len_nonneg l)) = Inr (- 1 \<le> n)"
  by (auto simp add: LenMagic_ops Len_nonneg_def and_then_def)

theorem LenMagic_nonneg_iff_witness:
  "and_then (LenMagic_lt (PyInt 1)) (\<lambda>l. Inr (Len_nonneg l)) = Inr True
   \<and> and_then (LenMagic_le (PyInt 1)) (\<lambda>l. Inr (Len_nonneg l)) = Inr True
   \<and> and_then (LenMagic_eq (PyInt 1)) (\<lambda>l. Inr (Len_nonneg l)) = Inr True
   \<and> and_then (LenMagic_ge (PyInt 1)) (\<lambda>l. Inr (Len_nonneg l)) = Inr True
   \<and> and_then (LenMagic_gt (PyInt 1)) (\<lambda>l. Inr (Len_nonneg l)) = Inr True"
  using LenMagic_nonneg_iff [of 1] by simp

text \<open>
  C8 as stated fails: \<^verbatim>\<open>len_X < 0\<close> is \<^verbatim>\<open>Len(max_length=-1)\<close> and
  \<^verbatim>\<open>len_X >= -5\<close> is \<^verbatim>\<open>Len(min_length=-5)\<close>.
\<close>

theorem LenMagic_negative_counterexample:
  "LenMagic_lt (PyInt 0) = Inr \<lparr>min_length = 0, max_length = Some (- 1)\<rparr>
   \<and> \<not> Len_nonneg \<lparr>min_length = 0, max_length = Some (- 1)\<rparr>
   \<and> LenMagic_ge (PyInt (- 5)) = Inr \<lparr>min_length = - 5, max_length = None\<rparr>
   \<and> \<not> Len_nonneg \<lparr>min_length = - 5, max_length = None\<rparr>"
  by (simp add: LenMagic_ops Len_nonneg_def)

section \<open>Properties of Len\<close>

lemmas Len_ops =
  Len_lt_def Len_le_def Len_ge_def Len_gt_def Len_check_def py_sub_def py_min_def py_max_def

text \<open>
  C6. For every Len, unpacking yields \<open>MinLen\<close> of \<^verbatim>\<open>min_length\<close> only if
  \<^verbatim>\<open>min_length > 0\<close>, followed by \<open>MaxLen\<close> of \<^verbatim>\<open>max_length\<close> only if
  \<^verbatim>\<open>max_length\<close> is present, and nothing else. \<^verbatim>\<open>Len()\<close> unpacks to nothing,
  \<^verbatim>\<open>Len(min_length=2)\<close> to \<^verbatim>\<open>[MinLen(2)]\<close> and \<^verbatim>\<open>Len(min_length=0, max_length=10)\<close>
  to \<^verbatim>\<open>[MaxLen(10)]\<close>.
\<close>

theorem Len_iter_expansion:
  "Len_iter l = (if 0 < min_length l then [MinLen (min_length l)] else [])
                @ (case max_length l of None \<Rightarrow> [] | Some m \<Rightarrow> [MaxLen m])
   \<and> (MinLen k \<in> set (Len_iter l) \<longleftrightarrow> k = min_length l \<and> 0 < k)
   \<and> (MaxLen k \<in> set (Len_iter l) \<longleftrightarrow> max_length l = Some k)
   \<and> Len_iter Len_init = []
   \<and> Len_iter (Len_init\<lparr>min_length := 2\<rparr>) = [MinLen 2]
   \<and> Len_iter \<lparr>min_length = 0, max_length = Some 10\<rparr> = [MaxLen 10]"
  by (auto simp add: Len_iter_def Len_init_def split: option.splits)

theorem Len_iter_expansion_witness:
  "Len_iter \<lparr>min_length = 2, max_length = Some 10\<rparr> = [MinLen 2, MaxLen 10]
   \<and> MinLen 2 \<in> set (Len_iter \<lparr>min_length = 2, max_length = Some 10\<rparr>)"
  using Len_iter_expansion [of "\<lparr>min_length = 2, max_length = Some 10\<rparr>" 2] by simp

text \<open>
  On a Len with no \<^verbatim>\<open>max_length\<close>, \<^verbatim>\<open><\<close> and \<^verbatim>\<open><=\<close> with an integer pass the
  check and then raise \<^verbatim>\<open>TypeError\<close> in \<^verbatim>\<open>None - 1\<close> and \<^verbatim>\<open>min(None, n)\<close>.
\<close>

lemma Len_upper_narrowing_no_max:
  "isinstance_int v \<Longrightarrow> max_length l = None \<Longrightarrow>
     Len_lt l v = Inl TypeError \<and> Len_le l v = Inl TypeError"
  by (simp add: Len_ops)

text \<open>
  With \<^verbatim>\<open>min_length\<close> at its default, \<^verbatim>\<open>>=\<close> and \<^verbatim>\<open>>\<close> with an integer return the
  copy with \<^verbatim>\<open>max(0, n)\<close> and \<^verbatim>\<open>max(1, n)\<close>.
\<close>

lemma Len_lower_narrowing_default:
  "min_length l = 0 \<Longrightarrow>
     Len_ge l (PyInt n) = Inr (l\<lparr>min_length := max 0 n\<rparr>)
     \<and> Len_gt l (PyInt n) = Inr (l\<lparr>min_length := max 1 n\<rparr>)"
  by (simp add: Len_ops max_def)

text \<open>
  C2, as the code has it. \<^verbatim>\<open>self <= n\<close> on a Len never widens an upper bound: when
  \<^verbatim>\<open>max_length\<close> is already set it raises \<^verbatim>\<open>ValueError\<close> for every integer \<open>n\<close>
  instead of returning a copy. So \<^verbatim>\<open>len_X <= n\<close> followed by \<^verbatim>\<open><= m\<close> raises at
  the second comparison, for all integers \<open>n\<close> and \<open>m\<close>.
\<close>

theorem Len_le_conflict:
  "(isinstance_int v \<and> max_length l \<noteq> None \<longrightarrow> Len_le l v = Inl ValueError)
   \<and> and_then (LenMagic_le (PyInt n)) (\<lambda>l. Len_le l (PyInt m)) = Inl ValueError"
  by (auto simp add: Len_ops LenMagic_ops and_then_def)

theorem Len_le_conflict_witness:
  "isinstance_int (PyInt 7) \<and> max_length \<lparr>min_length = 1, max_length = Some 4\<rparr> \<noteq> None
   \<and> Len_le \<lparr>min_length = 1, max_length = Some 4\<rparr> (PyInt 7) = Inl ValueError
   \<and> and_then (LenMagic_le (PyInt 3)) (\<lambda>l. Len_le l (PyInt 5)) = Inl ValueError"
  using Len_le_conflict [of "PyInt 7" "\<lparr>min_length = 1, max_length = Some 4\<rparr>" 3 5]
  by simp

text \<open>
  C2 as stated fails: \<^verbatim>\<open>len_X <= 3\<close> is \<^verbatim>\<open>Len(max_length=3)\<close>, and \<^verbatim>\<open><= 5\<close> on
  it raises \<^verbatim>\<open>ValueError\<close> rather than returning \<^verbatim>\<open>Len(max_length=3)\<close>.
\<close>

theorem Len_le_max_set_counterexample:
  "LenMagic_le (PyInt 3) = Inr \<lparr>min_length = 0, max_length = Some 3\<rparr>
   \<and> Len_le \<lparr>min_length = 0, max_length = Some 3\<rparr> (PyInt 5) = Inl ValueError
   \<and> Len_le \<lparr>min_length = 0, max_length = Some 3\<rparr> (PyInt 5)
       \<noteq> Inr \<lparr>min_length = 0, max_length = Some (min 3 5)\<rparr>"
  by (simp add: Len_ops LenMagic_ops)

text \<open>
  C7, as the code has it. \<^verbatim>\<open>self == n\<close> for an integer \<open>n\<close> returns
  \<^verbatim>\<open>Len(min_length=n, max_length=n)\<close> when \<^verbatim>\<open>self\<close> has no bound yet
  (\<^verbatim>\<open>min_length == 0\<close> and no \<^verbatim>\<open>max_length\<close>), as \<^verbatim>\<open>Len() == 5\<close> does, and raises
  \<^verbatim>\<open>ValueError\<close> when \<^verbatim>\<open>self\<close> already has one. Against another Len, \<^verbatim>\<open>==\<close>
  returns the boolean that is true exactly when both bounds match.
\<close>

theorem Len_eq_exact_length:
  "Len_eq l (PyInt n) =
     (if min_length l = 0 \<and> max_length l = None
      then Inr (PyLen \<lparr>min_length = n, max_length = Some n\<rparr>)
      else Inl ValueError)
   \<and> Len_eq Len_init (PyInt 5) = Inr (PyLen \<lparr>min_length = 5, max_length = Some 5\<rparr>)
   \<and> Len_eq l (PyLen l') =
       Inr (PyBool (min_length l = min_length l' \<and> max_length l = max_length l'))
   \<and> (Len_eq l (PyLen l') = Inr (PyBool True) \<longleftrightarrow> l = l')"
  by (auto simp add: Len_eq_def Len_check_def Len_init_def)

theorem Len_eq_exact_length_witness:
  "Len_eq \<lparr>min_length = 0, max_length = None\<rparr> (PyInt 5)
     = Inr (PyLen \<lparr>min_length = 5, max_length = Some 5\<rparr>)
   \<and> Len_eq \<lparr>min_length = 1, max_length = Some 2\<rparr> (PyLen \<lparr>min_length = 1, max_length = Some 2\<rparr>)
     = Inr (PyBool True)
   \<and> Len_eq \<lparr>min_length = 1, max_length = Some 2\<rparr> (PyLen \<lparr>min_length = 1, max_length = Some 3\<rparr>)
     = Inr (PyBool False)"
  using Len_eq_exact_length [of "\<lparr>min_length = 0, max_length = None\<rparr>" 5]
    Len_eq_exact_length [of "\<lparr>min_length = 1, max_length = Some 2\<rparr>" 0
      "\<lparr>min_length = 1, max_length = Some 2\<rparr>"]
    Len_eq_exact_length [of "\<lparr>min_length = 1, max_length = Some 2\<rparr>" 0
      "\<lparr>min_length = 1, max_length = Some 3\<rparr>"]
  by simp

text \<open>
  C7 as stated fails on a Len that already has a bound: \<^verbatim>\<open>Len(min_length=2) == 5\<close>
  raises \<^verbatim>\<open>ValueError\<close>.
\<close>

theorem Len_eq_bounded_counterexample:
  "Len_eq \<lparr>min_length = 2, max_length = None\<rparr> (PyInt 5) = Inl ValueError
   \<and> Len_eq \<lparr>min_length = 2, max_length = None\<rparr> (PyInt 5)
       \<noteq> Inr (PyLen \<lparr>min_length = 5, max_length = Some 5\<rparr>)"
  by (simp add: Len_eq_def Len_check_def)

text \<open>
  C9. Each of \<^verbatim>\<open><\<close>, \<^verbatim>\<open><=\<close>, \<^verbatim>\<open>>=\<close> and \<^verbatim>\<open>>\<close> on a Len raises \<^verbatim>\<open>TypeError\<close>
  whenever its argument is not an integer, whatever bounds the Len has; \<^verbatim>\<open>==\<close> raises
  \<^verbatim>\<open>TypeError\<close> whenever its argument is neither a Len nor an integer.
\<close>

theorem Len_non_integer_TypeError:
  "\<not> isinstance_int v \<Longrightarrow>
     Len_lt l v = Inl TypeError \<and> Len_le l v = Inl TypeError
     \<and> Len_ge l v = Inl TypeError \<and> Len_gt l v = Inl TypeError
     \<and> (\<not> type_is_Len v \<longrightarrow> Len_eq l v = Inl TypeError)"
  by (cases v) (simp_all add: Len_ops Len_eq_def)

theorem Len_non_integer_TypeError_witness:
  "\<not> isinstance_int (PyStr ''abc'') \<and> \<not> type_is_Len (PyStr ''abc'')
   \<and> Len_lt \<lparr>min_length = 1, max_length = Some 4\<rparr> (PyStr ''abc'') = Inl TypeError
   \<and> Len_le \<lparr>min_length = 1, max_length = Some 4\<rparr> (PyStr ''abc'') = Inl TypeError
   \<and> Len_ge \<lparr>min_length = 1, max_length = Some 4\<rparr> (PyStr ''abc'') = Inl TypeError
   \<and> Len_gt \<lparr>min_length = 1, max_length = Some 4\<rparr> (PyStr ''abc'') = Inl TypeError
   \<and> Len_eq \<lparr>min_length = 1, max_length = Some 4\<rparr> (PyStr ''abc'') = Inl TypeError"
proof -
  have h: "\<not> isinstance_int (PyStr ''abc'')" by simp
  show ?thesis
    using h Len_non_integer_TypeError [OF h, of "\<lparr>min_length = 1, max_length = Some 4\<rparr>"]
    by simp
qed

section \<open>Properties of subclassing \<^verbatim>\<open>GroupedMetadata\<close>\<close>

text \<open>
  C10. A class statement that derives from \<^verbatim>\<open>GroupedMetadata\<close> and whose body has no
  \<^verbatim>\<open>__iter__\<close> raises \<^verbatim>\<open>TypeError\<close>: no class object comes out of it, so the failure
  is that of the definition and none is left for instance creation or first use. A class
  statement whose body defines its own \<^verbatim>\<open>__iter__\<close> returns the class. No class that a
  statement returned resolves \<^verbatim>\<open>__iter__\<close> to the base method that raises
  \<^verbatim>\<open>NotImplementedError\<close>.
\<close>

theorem GroupedMetadata_subclass_needs_iter:
  "(body ''__iter__'' = None \<longrightarrow> class_stmt name GroupedMetadata body = Inl TypeError)
   \<and> (body ''__iter__'' = Some (Fn k) \<longrightarrow>
        class_stmt name GroupedMetadata body = Inr (PyClass name (Some GroupedMetadata) body))
   \<and> (class_stmt name GroupedMetadata body = Inr cls \<longrightarrow>
        instance_iter cls \<noteq> Inl NotImplementedError)"
  by (auto simp add: class_stmt_def GroupedMetadata_def GroupedMetadata_init_subclass_def
      instance_iter_def split: option.splits if_splits)

theorem GroupedMetadata_subclass_needs_iter_witness:
  "class_stmt ''Field'' GroupedMetadata Map.empty = Inl TypeError
   \<and> class_stmt ''Field'' GroupedMetadata [''__iter__'' \<mapsto> Fn 0]
       = Inr (PyClass ''Field'' (Some GroupedMetadata) [''__iter__'' \<mapsto> Fn 0])
   \<and> instance_iter (PyClass ''Field'' (Some GroupedMetadata) [''__iter__'' \<mapsto> Fn 0])
       \<noteq> Inl NotImplementedError"
  using GroupedMetadata_subclass_needs_iter [of "Map.empty" "''Field''" 0
      "PyClass ''Field'' (Some GroupedMetadata) [''__iter__'' \<mapsto> Fn 0]"]
    GroupedMetadata_subclass_needs_iter [of "[''__iter__'' \<mapsto> Fn 0]" "''Field''" 0
      "PyClass ''Field'' (Some GroupedMetadata) [''__iter__'' \<mapsto> Fn 0]"]
  by simp

end
